theory Spec2Isabelle
  imports Main "HOL-Library.Sublist"
begin

section \<open>The authentication provider\<close>

text \<open>
  The provider keeps the signed-in user, the row of \<open>profiles\<close> and the rows of
  \<open>workspace_members\<close> of that user in component state. The capability helpers are
  closures over that state. Roles and workspace ids are the strings the store returns;
  a column that is \<open>null\<close> is \<open>None\<close>.
\<close>

record user =
  user_id :: string
  email :: "string option"

record session =
  session_user :: "user option"

record profile =
  prof_role :: "string option"

record membership =
  m_workspace_id :: string
  m_role :: string

record auth =
  session :: "session option"
  user :: "user option"
  profile :: "profile option"
  memberships :: "membership list"
  loading :: bool

text \<open>The answer of a store query: \<open>{ data, error }\<close>.\<close>

record 'a response =
  data :: "'a option"
  error :: "string option"

subsection \<open>Loading (the provider with \<open>globalRole\<close>)\<close>

text \<open>
  \<open>load\<close> of the provider, as a function of the answers it awaits: the session, the
  profile query and the memberships query. \<open>isMounted\<close> is the flag read after the
  session has arrived. The setters only replace the state slots, so the state after the
  run is the composition of the calls in program order.
\<close>

definition load ::
  "bool \<Rightarrow> session option \<Rightarrow> profile response \<Rightarrow> membership list response \<Rightarrow> auth \<Rightarrow> auth" where
  "load isMounted sess pr mr a =
    (let a1 = a\<lparr>loading := True\<rparr> in
     if \<not> isMounted then a1
     else
       let u = (case sess of None \<Rightarrow> None | Some s \<Rightarrow> session_user s);
           a2 = a1\<lparr>session := sess, user := u\<rparr>
       in case u of
            None \<Rightarrow> a2\<lparr>profile := None, memberships := [], loading := False\<rparr>
          | Some _ \<Rightarrow>
              let a3 = (case error pr of
                          Some _ \<Rightarrow> a2\<lparr>profile := None\<rparr>
                        | None \<Rightarrow> a2\<lparr>profile := data pr\<rparr>);
                  a4 = (case error mr of
                          Some _ \<Rightarrow> a3\<lparr>memberships := []\<rparr>
                        | None \<Rightarrow> a3\<lparr>memberships := (case data mr of None \<Rightarrow> [] | Some m \<Rightarrow> m)\<rparr>)
              in a4\<lparr>loading := False\<rparr>)"

subsection \<open>Capability helpers (the provider with \<open>globalRole\<close>)\<close>

text \<open>\<open>profile?.role ?? "user"\<close>\<close>

definition globalRole :: "auth \<Rightarrow> string" where
  "globalRole a =
    (case profile a of
       None \<Rightarrow> ''user''
     | Some p \<Rightarrow> (case prof_role p of None \<Rightarrow> ''user'' | Some r \<Rightarrow> r))"

definition isAdmin :: "auth \<Rightarrow> bool" where
  "isAdmin a \<longleftrightarrow> globalRole a = ''admin''"

definition isClient :: "auth \<Rightarrow> bool" where
  "isClient a \<longleftrightarrow>
    list_ex (\<lambda>m. m_role m = ''client_viewer'' \<or> m_role m = ''client_approver'') (memberships a)"

text \<open>\<open>canApprove\<close> is declared without a parameter: an argument of a call is dropped.\<close>

definition canApprove :: "auth \<Rightarrow> bool" where
  "canApprove a \<longleftrightarrow>
    isAdmin a \<or> list_ex (\<lambda>m. m_role m = ''client_approver'') (memberships a)"

definition hasAccessToWorkspace :: "auth \<Rightarrow> string \<Rightarrow> bool" where
  "hasAccessToWorkspace a workspaceId \<longleftrightarrow>
    isAdmin a \<or> list_ex (\<lambda>m. m_workspace_id m = workspaceId) (memberships a)"

definition getClientWorkspaceId :: "auth \<Rightarrow> string option" where
  "getClientWorkspaceId a =
    (if isAdmin a then None
     else case find (\<lambda>m. m_role m = ''client_viewer'' \<or> m_role m = ''client_approver'')
                 (memberships a) of
            None \<Rightarrow> None
          | Some cm \<Rightarrow> Some (m_workspace_id cm))"

subsection \<open>Capability helpers (the provider with \<open>userRole\<close>)\<close>

text \<open>
  The provider in \<open>components/auth/AuthProvider.jsx\<close> first collapses the profile and
  the memberships into one role, in this order, and derives every helper from it.
\<close>

definition userRole :: "auth \<Rightarrow> string" where
  "userRole a =
    (if (case profile a of None \<Rightarrow> None | Some p \<Rightarrow> prof_role p) = Some ''admin'' then ''admin''
     else if list_ex (\<lambda>m. m_role m = ''account_manager'') (memberships a) then ''account_manager''
     else if list_ex (\<lambda>m. m_role m = ''client_approver'') (memberships a) then ''client_approver''
     else if list_ex (\<lambda>m. m_role m = ''client_viewer'') (memberships a) then ''client_viewer''
     else ''viewer'')"

definition isAdmin_userRole :: "auth \<Rightarrow> bool" where
  "isAdmin_userRole a \<longleftrightarrow> userRole a = ''admin''"

definition isAccountManager :: "auth \<Rightarrow> bool" where
  "isAccountManager a \<longleftrightarrow> userRole a = ''account_manager'' \<or> userRole a = ''admin''"

definition isClient_userRole :: "auth \<Rightarrow> bool" where
  "isClient_userRole a \<longleftrightarrow> userRole a = ''client_viewer'' \<or> userRole a = ''client_approver''"

definition canApprove_userRole :: "auth \<Rightarrow> bool" where
  "canApprove_userRole a \<longleftrightarrow> userRole a = ''client_approver'' \<or> userRole a = ''admin''"

subsection \<open>The contract of the role resolution engine, as the specification words it\<close>

text \<open>
  \<open>canApprove(workspaceId)\<close>: true iff admin, or a membership in that workspace has role
  \<open>client_approver\<close>. This definition follows the specification, not the source.
\<close>

definition canApprove_spec :: "auth \<Rightarrow> string \<Rightarrow> bool" where
  "canApprove_spec a w \<longleftrightarrow>
    globalRole a = ''admin'' \<or>
    list_ex (\<lambda>m. m_workspace_id m = w \<and> m_role m = ''client_approver'') (memberships a)"

text \<open>
  \<open>isClient()\<close>: true iff any membership has role \<open>client_viewer\<close> or
  \<open>client_approver\<close>. This definition follows the specification, not the source.
\<close>

definition isClient_spec :: "auth \<Rightarrow> bool" where
  "isClient_spec a \<longleftrightarrow>
    list_ex (\<lambda>m. m_role m = ''client_viewer'' \<or> m_role m = ''client_approver'') (memberships a)"

subsection \<open>Sample accounts\<close>

definition alice :: user where
  "alice = \<lparr>user_id = ''u1'', email = Some ''alice@example.com''\<rparr>"

text \<open>A signed-in account with global role \<open>user\<close> and the given memberships.\<close>

definition account :: "membership list \<Rightarrow> auth" where
  "account ms =
    \<lparr>session = Some \<lparr>session_user = Some alice\<rparr>, user = Some alice,
     profile = Some \<lparr>prof_role = Some ''user''\<rparr>, memberships = ms, loading = False\<rparr>"

definition approver_w1 :: auth where
  "approver_w1 = account [\<lparr>m_workspace_id = ''w1'', m_role = ''client_approver''\<rparr>]"

definition manager_and_viewer :: auth where
  "manager_and_viewer =
    account [\<lparr>m_workspace_id = ''w1'', m_role = ''account_manager''\<rparr>,
             \<lparr>m_workspace_id = ''w2'', m_role = ''client_viewer''\<rparr>]"

section \<open>The calendar's scoping filter\<close>

text \<open>
  The calendar page loads the social accounts and the posts the store lets the caller
  read and narrows them by three selectors; the selector value \<open>"all"\<close> switches a
  dimension off.
\<close>

record social_account =
  sa_id :: string
  sa_workspace_id :: string
  sa_platform :: string

record post =
  p_id :: string
  p_workspace_id :: string
  p_social_account_id :: "string option"
  p_platform :: string
  p_status :: string
  p_approval_status :: "string option"
  p_approved_by :: "string option"
  p_approved_at :: "string option"

definition filteredAccounts ::
  "social_account list \<Rightarrow> string \<Rightarrow> string \<Rightarrow> social_account list" where
  "filteredAccounts allAccounts selectedWorkspace selectedPlatform =
    (let accs = allAccounts;
         accs = (if selectedWorkspace \<noteq> ''all''
                 then filter (\<lambda>a. sa_workspace_id a = selectedWorkspace) accs else accs);
         accs = (if selectedPlatform \<noteq> ''all''
                 then filter (\<lambda>a. sa_platform a = selectedPlatform) accs else accs)
     in accs)"

text \<open>
  \<open>p.social_account_id ? accountIds.has(p.social_account_id) : true\<close>: \<open>null\<close> and the
  empty string are falsy.
\<close>

definition account_visible :: "string list \<Rightarrow> post \<Rightarrow> bool" where
  "account_visible accountIds p =
    (case p_social_account_id p of
       None \<Rightarrow> True
     | Some sid \<Rightarrow> (if sid = [] then True else sid \<in> set accountIds))"

definition posts ::
  "post list \<Rightarrow> social_account list \<Rightarrow> string \<Rightarrow> string \<Rightarrow> string \<Rightarrow> post list" where
  "posts allPosts accounts selectedWorkspace selectedPlatform selectedAccount =
    (let accountIds = map sa_id accounts;
         filtered = filter (account_visible accountIds) allPosts;
         filtered = (if selectedWorkspace \<noteq> ''all''
                     then filter (\<lambda>p. p_workspace_id p = selectedWorkspace) filtered
                     else filtered);
         filtered = (if selectedPlatform \<noteq> ''all''
                     then filter (\<lambda>p. p_platform p = selectedPlatform) filtered
                     else filtered);
         filtered = (if selectedAccount \<noteq> ''all''
                     then filter (\<lambda>p. p_social_account_id p = Some selectedAccount) filtered
                     else filtered)
     in filtered)"

text \<open>The page passes the narrowed accounts of the same selectors to \<open>posts\<close>.\<close>

definition calendar_posts ::
  "post list \<Rightarrow> social_account list \<Rightarrow> string \<Rightarrow> string \<Rightarrow> string \<Rightarrow> post list" where
  "calendar_posts allPosts allAccounts selectedWorkspace selectedPlatform selectedAccount =
    posts allPosts (filteredAccounts allAccounts selectedWorkspace selectedPlatform)
      selectedWorkspace selectedPlatform selectedAccount"

section \<open>The approval component\<close>

text \<open>
  The store holds the posts, the comments and the audit log. The last two are only
  appended to. A JSON object of an audit entry is the list of its keys and values; a value
  that is \<open>null\<close> or \<open>undefined\<close> is \<open>None\<close>.
\<close>

record comment =
  c_post_id :: string
  c_workspace_id :: string
  c_content :: string
  c_is_internal :: bool

record audit_log =
  al_workspace_id :: string
  al_entity_type :: string
  al_entity_id :: string
  al_action :: string
  al_details :: "(string \<times> string option) list"

record db =
  db_posts :: "post list"
  comments :: "comment list"
  audit_logs :: "audit_log list"

text \<open>
  What the store answers to the three remote calls of one handler run (an error, or
  \<open>None\<close> for success), and its clock. A call that answers with an error leaves the
  store as it was.
\<close>

record env =
  rpc_error :: "string option"
  comment_error :: "string option"
  audit_error :: "string option"
  now :: string

record ui =
  showRejectDialog :: bool
  rejectReason :: string

text \<open>
  Modelled from the spec: the stored procedure \<open>approve_post\<close>, called through
  \<open>supabase.rpc\<close>, is not among the sources. Following sections 4.3 and 9 it is the
  status update of the transition: on the post with the given id it sets the approval
  status to the verdict and, for an approval, records the approver's identity and the
  time. The audit entry and the comment are written by the client in calls of their own.
  Its refusals (unauthorized, invalid state, transport) are the \<open>rpc_error\<close> of the
  environment.
\<close>

definition approve_post ::
  "string option \<Rightarrow> string \<Rightarrow> string \<Rightarrow> string \<Rightarrow> string option \<Rightarrow> post list \<Rightarrow> post list" where
  "approve_post caller at post_id verdict reason ps =
    map (\<lambda>p. if p_id p = post_id
              then (if verdict = ''approved''
                    then p\<lparr>p_approval_status := Some verdict, p_approved_by := caller,
                           p_approved_at := Some at\<rparr>
                    else p\<lparr>p_approval_status := Some verdict\<rparr>)
              else p) ps"

text \<open>\<open>updateMutation.mutateAsync({ status, reason })\<close>: throws the error of the call.\<close>

definition updateMutation ::
  "env \<Rightarrow> user option \<Rightarrow> post \<Rightarrow> string \<Rightarrow> string option \<Rightarrow> db \<Rightarrow> (string + unit) \<times> db" where
  "updateMutation e u post status reason d =
    (case rpc_error e of
       Some err \<Rightarrow> (Inl err, d)
     | None \<Rightarrow>
         (Inr (), d\<lparr>db_posts :=
            approve_post (map_option user_id u) (now e) (p_id post) status reason (db_posts d)\<rparr>))"

definition createComment :: "env \<Rightarrow> comment \<Rightarrow> db \<Rightarrow> (string + unit) \<times> db" where
  "createComment e row d =
    (case comment_error e of
       Some err \<Rightarrow> (Inl err, d)
     | None \<Rightarrow> (Inr (), d\<lparr>comments := comments d @ [row]\<rparr>))"

definition createAuditLog ::
  "env \<Rightarrow> post \<Rightarrow> string \<Rightarrow> (string \<times> string option) list \<Rightarrow> db \<Rightarrow> (string + unit) \<times> db" where
  "createAuditLog e post action details d =
    (case audit_error e of
       Some err \<Rightarrow> (Inl err, d)
     | None \<Rightarrow>
         (Inr (), d\<lparr>audit_logs := audit_logs d @
            [\<lparr>al_workspace_id = p_workspace_id post, al_entity_type = ''post'',
              al_entity_id = p_id post, al_action = action, al_details = details\<rparr>]\<rparr>))"

text \<open>\<open>user?.email\<close>\<close>

definition user_email :: "user option \<Rightarrow> string option" where
  "user_email u = (case u of None \<Rightarrow> None | Some x \<Rightarrow> email x)"

text \<open>\<open>rejectReason || null\<close>\<close>

definition reason_or_null :: "string \<Rightarrow> string option" where
  "reason_or_null r = (if r = [] then None else Some r)"

text \<open>
  The handlers await each call in turn; a call that throws ends the handler, and what
  the earlier calls wrote stays written. \<open>post\<close> is the component's property, the row as
  the page last read it.
\<close>

definition handleApprove :: "env \<Rightarrow> user option \<Rightarrow> post \<Rightarrow> db \<Rightarrow> (string + unit) \<times> db" where
  "handleApprove e u post d =
    (case updateMutation e u post ''approved'' None d of
       (Inl err, d1) \<Rightarrow> (Inl err, d1)
     | (Inr _, d1) \<Rightarrow>
         createAuditLog e post ''approved''
           [(''action'', Some ''Post approved''), (''approved_by'', user_email u)] d1)"

definition handleRequestChanges ::
  "env \<Rightarrow> user option \<Rightarrow> post \<Rightarrow> ui \<Rightarrow> db \<Rightarrow> (string + unit) \<times> ui \<times> db" where
  "handleRequestChanges e u post s d =
    (case updateMutation e u post ''changes_requested'' (reason_or_null (rejectReason s)) d of
       (Inl err, d1) \<Rightarrow> (Inl err, s, d1)
     | (Inr _, d1) \<Rightarrow>
         (case (if rejectReason s \<noteq> []
                then createComment e
                       \<lparr>c_post_id = p_id post, c_workspace_id = p_workspace_id post,
                        c_content = ''Changes requested: '' @ rejectReason s,
                        c_is_internal = False\<rparr> d1
                else (Inr (), d1)) of
            (Inl err, d2) \<Rightarrow> (Inl err, s, d2)
          | (Inr _, d2) \<Rightarrow>
              (case createAuditLog e post ''changes_requested''
                      [(''action'', Some ''Changes requested''),
                       (''reason'', reason_or_null (rejectReason s)),
                       (''requested_by'', user_email u)] d2 of
                 (Inl err, d3) \<Rightarrow> (Inl err, s, d3)
               | (Inr _, d3) \<Rightarrow> (Inr (), s\<lparr>showRejectDialog := False, rejectReason := []\<rparr>, d3))))"

text \<open>
  What the component renders, from the two capability answers of the provider and the
  post property: nothing, one of the two verdict panels, or the approval controls. The
  approved panel prints \<open>format(parseISO(post.approved_at), 'MMM d, yyyy')\<close>, which
  throws a \<open>RangeError\<close> when \<open>approved_at\<close> is \<open>null\<close> or is not a date that
  \<open>parseISO\<close> reads; rendering then ends with that error. Which strings the date
  library reads is the parameter \<open>is_iso_date\<close>.
\<close>

datatype view = Hidden | ApprovedPanel | ChangesRequestedPanel | Controls

definition PostApproval :: "(string \<Rightarrow> bool) \<Rightarrow> bool \<Rightarrow> bool \<Rightarrow> post \<Rightarrow> string + view" where
  "PostApproval is_iso_date can_approve is_client post =
    (if p_status post \<noteq> ''sent_to_client'' \<and> \<not> is_client then Inr Hidden
     else if p_approval_status post = Some ''approved'' then
       (case p_approved_at post of
          None \<Rightarrow> Inl ''RangeError: Invalid time value''
        | Some t \<Rightarrow> (if is_iso_date t then Inr ApprovedPanel
                     else Inl ''RangeError: Invalid time value''))
     else if p_approval_status post = Some ''changes_requested'' then Inr ChangesRequestedPanel
     else if \<not> can_approve \<or> p_status post \<noteq> ''sent_to_client'' then Inr Hidden
     else Inr Controls)"

text \<open>
  Modelled from the spec: the answer of the stored procedure \<open>approve_post\<close>, which is
  not among the sources. Following sections 4.3 and 7 it fails with \<open>NotFound\<close> when
  the post is missing, with \<open>Unauthorized\<close> when \<open>canApprove(post.workspaceId)\<close> fails
  for the caller, with \<open>InvalidState\<close> when \<open>post.status\<close> is not
  \<open>sent_to_client\<close>, and performs the transition otherwise. The approval status the
  post already has is no part of the precondition.
\<close>

definition approve_post_refusal :: "auth \<Rightarrow> string \<Rightarrow> post list \<Rightarrow> string option" where
  "approve_post_refusal caller post_id ps =
    (case find (\<lambda>p. p_id p = post_id) ps of
       None \<Rightarrow> Some ''NotFound''
     | Some p \<Rightarrow>
         (if \<not> canApprove_spec caller (p_workspace_id p) then Some ''Unauthorized''
          else if p_status p \<noteq> ''sent_to_client'' then Some ''InvalidState''
          else None))"

text \<open>
  Modelled from the spec: the answers of a store that runs \<open>approve_post\<close> as above
  for the caller on the posts it holds, and accepts the two inserts.
\<close>

definition spec_store :: "auth \<Rightarrow> string \<Rightarrow> string \<Rightarrow> db \<Rightarrow> env" where
  "spec_store caller at post_id d =
    \<lparr>rpc_error = approve_post_refusal caller post_id (db_posts d), comment_error = None,
     audit_error = None, now = at\<rparr>"

text \<open>The audit entries and the comments of a post.\<close>

definition audit_of :: "string \<Rightarrow> db \<Rightarrow> audit_log list" where
  "audit_of pid d = filter (\<lambda>r. al_entity_type r = ''post'' \<and> al_entity_id r = pid) (audit_logs d)"

definition approved_in :: "string \<Rightarrow> db \<Rightarrow> bool" where
  "approved_in pid d \<longleftrightarrow>
    list_ex (\<lambda>p. p_id p = pid \<and> p_approval_status p = Some ''approved'') (db_posts d)"

subsection \<open>Sample store\<close>

definition p1 :: post where
  "p1 = \<lparr>p_id = ''p1'', p_workspace_id = ''w1'', p_social_account_id = None,
         p_platform = ''instagram'', p_status = ''sent_to_client'', p_approval_status = None,
         p_approved_by = None, p_approved_at = None\<rparr>"

definition p1_approved :: post where
  "p1_approved = p1\<lparr>p_approval_status := Some ''approved'', p_approved_by := Some ''u0'',
                    p_approved_at := Some ''2024-01-01''\<rparr>"

definition db0 :: db where
  "db0 = \<lparr>db_posts = [p1], comments = [], audit_logs = []\<rparr>"


definition db_published :: db where
  "db_published = \<lparr>db_posts = [p1_approved\<lparr>p_status := ''published''\<rparr>], comments = [],
     audit_logs = []\<rparr>"

definition env_ok :: env where
  "env_ok = \<lparr>rpc_error = None, comment_error = None, audit_error = None, now = ''2024-01-02''\<rparr>"

definition ui_reason :: "string \<Rightarrow> ui" where
  "ui_reason r = \<lparr>showRejectDialog = True, rejectReason = r\<rparr>"

definition p2 :: post where
  "p2 = \<lparr>p_id = ''p2'', p_workspace_id = ''w2'', p_social_account_id = Some ''a2'',
         p_platform = ''tiktok'', p_status = ''draft'', p_approval_status = None,
         p_approved_by = None, p_approved_at = None\<rparr>"

definition acc1 :: social_account where
  "acc1 = \<lparr>sa_id = ''a1'', sa_workspace_id = ''w1'', sa_platform = ''instagram''\<rparr>"

definition acc2 :: social_account where
  "acc2 = \<lparr>sa_id = ''a2'', sa_workspace_id = ''w2'', sa_platform = ''tiktok''\<rparr>"

text \<open>An account whose profile row says \<open>admin\<close>, before a reload.\<close>

definition admin_auth :: auth where
  "admin_auth =
    \<lparr>session = Some \<lparr>session_user = Some alice\<rparr>, user = Some alice,
     profile = Some \<lparr>prof_role = Some ''admin''\<rparr>, memberships = [], loading = False\<rparr>"

text \<open>Environments in which one of the later calls is refused.\<close>

definition env_audit_fails :: env where
  "env_audit_fails = env_ok\<lparr>audit_error := Some ''audit insert failed''\<rparr>"

definition env_comment_fails :: env where
  "env_comment_fails = env_ok\<lparr>comment_error := Some ''comment insert failed''\<rparr>"

text \<open>The rows the handlers write.\<close>

definition approved_entry :: "user option \<Rightarrow> post \<Rightarrow> audit_log" where
  "approved_entry u post =
    \<lparr>al_workspace_id = p_workspace_id post, al_entity_type = ''post'',
     al_entity_id = p_id post, al_action = ''approved'',
     al_details = [(''action'', Some ''Post approved''), (''approved_by'', user_email u)]\<rparr>"

definition changes_entry :: "user option \<Rightarrow> post \<Rightarrow> string \<Rightarrow> audit_log" where
  "changes_entry u post r =
    \<lparr>al_workspace_id = p_workspace_id post, al_entity_type = ''post'',
     al_entity_id = p_id post, al_action = ''changes_requested'',
     al_details = [(''action'', Some ''Changes requested''), (''reason'', reason_or_null r),
                   (''requested_by'', user_email u)]\<rparr>"

definition changes_comment :: "post \<Rightarrow> string \<Rightarrow> comment" where
  "changes_comment post r =
    \<lparr>c_post_id = p_id post, c_workspace_id = p_workspace_id post,
     c_content = ''Changes requested: '' @ r, c_is_internal = False\<rparr>"

section \<open>Role resolution\<close>

lemma globalRole_account: "globalRole (account ms) = ''user''"
  by (simp add: globalRole_def account_def)

lemma isAdmin_account: "\<not> isAdmin (account ms)"
  by (simp add: isAdmin_def globalRole_account)

text \<open>
  C7: \<open>hasAccessToWorkspace(w)\<close> is true if and only if the global role is admin or
  some membership of the account references workspace \<open>w\<close>; an account with global role
  \<open>user\<close> and no memberships has access to no workspace.
\<close>

theorem hasAccessToWorkspace_iff:
  "(hasAccessToWorkspace a w \<longleftrightarrow>
      globalRole a = ''admin'' \<or> (\<exists>m \<in> set (memberships a). m_workspace_id m = w))
   \<and> \<not> hasAccessToWorkspace (account []) w"
proof
  show "hasAccessToWorkspace a w \<longleftrightarrow>
      globalRole a = ''admin'' \<or> (\<exists>m \<in> set (memberships a). m_workspace_id m = w)"
    by (simp add: hasAccessToWorkspace_def isAdmin_def list_ex_iff)
  show "\<not> hasAccessToWorkspace (account []) w"
    by (simp add: hasAccessToWorkspace_def isAdmin_account) (simp add: account_def)
qed

theorem hasAccessToWorkspace_iff_witness:
  "hasAccessToWorkspace approver_w1 ''w1'' \<and> \<not> hasAccessToWorkspace approver_w1 ''w2''
   \<and> \<not> hasAccessToWorkspace (account []) ''w1''"
  using hasAccessToWorkspace_iff [of approver_w1 "''w1''"]
        hasAccessToWorkspace_iff [of approver_w1 "''w2''"]
  by (simp add: approver_w1_def globalRole_account) (simp add: account_def)

lemma globalRole_admin_iff:
  "globalRole a = ''admin'' \<longleftrightarrow>
     (case profile a of None \<Rightarrow> None | Some p \<Rightarrow> prof_role p) = Some ''admin''"
  by (simp add: globalRole_def split: option.splits)

lemma userRole_cases:
  "userRole a = ''admin'' \<longleftrightarrow> globalRole a = ''admin''"
  "userRole a = ''client_approver'' \<longleftrightarrow>
     globalRole a \<noteq> ''admin'' \<and>
     \<not> list_ex (\<lambda>m. m_role m = ''account_manager'') (memberships a) \<and>
     list_ex (\<lambda>m. m_role m = ''client_approver'') (memberships a)"
  "userRole a = ''client_viewer'' \<longleftrightarrow>
     globalRole a \<noteq> ''admin'' \<and>
     \<not> list_ex (\<lambda>m. m_role m = ''account_manager'') (memberships a) \<and>
     \<not> list_ex (\<lambda>m. m_role m = ''client_approver'') (memberships a) \<and>
     list_ex (\<lambda>m. m_role m = ''client_viewer'') (memberships a)"
  by (simp_all add: userRole_def globalRole_admin_iff)

text \<open>
  C1, as stated: \<open>canApprove(w)\<close> would be false in a workspace where the account holds
  no approver membership. Both providers answer true for the account whose only
  membership is \<open>client_approver\<close> in \<open>w1\<close>, whatever the workspace asked about.
\<close>

theorem canApprove_ignores_workspace_counterexample:
  "canApprove approver_w1 \<noteq> canApprove_spec approver_w1 ''w2''
   \<and> canApprove_userRole approver_w1 \<noteq> canApprove_spec approver_w1 ''w2''"
  by (simp add: canApprove_def canApprove_userRole_def canApprove_spec_def userRole_def
      isAdmin_def globalRole_def approver_w1_def account_def)

text \<open>
  C1, amended: \<open>canApprove()\<close> takes no workspace. In the provider with \<open>globalRole\<close>
  it is true if and only if the global role is admin or some membership, in whichever
  workspace, has role \<open>client_approver\<close>; in the provider with \<open>userRole\<close> the
  membership counts only when no membership has role \<open>account_manager\<close>.
\<close>

theorem canApprove_any_workspace:
  "(canApprove a \<longleftrightarrow>
      globalRole a = ''admin'' \<or> (\<exists>m \<in> set (memberships a). m_role m = ''client_approver''))
   \<and> (canApprove_userRole a \<longleftrightarrow>
      globalRole a = ''admin'' \<or>
      ((\<exists>m \<in> set (memberships a). m_role m = ''client_approver'') \<and>
       \<not> (\<exists>m \<in> set (memberships a). m_role m = ''account_manager'')))"
proof
  show "canApprove a \<longleftrightarrow>
      globalRole a = ''admin'' \<or> (\<exists>m \<in> set (memberships a). m_role m = ''client_approver'')"
    by (simp add: canApprove_def isAdmin_def list_ex_iff)
  show "canApprove_userRole a \<longleftrightarrow>
      globalRole a = ''admin'' \<or>
      ((\<exists>m \<in> set (memberships a). m_role m = ''client_approver'') \<and>
       \<not> (\<exists>m \<in> set (memberships a). m_role m = ''account_manager''))"
    unfolding canApprove_userRole_def userRole_cases list_ex_iff by blast
qed

theorem canApprove_any_workspace_witness:
  "canApprove approver_w1 \<and> canApprove_userRole approver_w1
   \<and> \<not> canApprove manager_and_viewer \<and> \<not> canApprove_userRole manager_and_viewer"
  using canApprove_any_workspace [of approver_w1] canApprove_any_workspace [of manager_and_viewer]
  by (simp add: approver_w1_def manager_and_viewer_def globalRole_account) (simp add: account_def)

text \<open>
  C8, as stated: an account that is account manager in one workspace and client viewer
  in another has a client membership, yet \<open>isClient()\<close> of the provider with
  \<open>userRole\<close> is false for it.
\<close>

theorem isClient_userRole_counterexample:
  "isClient_spec manager_and_viewer \<and> \<not> isClient_userRole manager_and_viewer"
  by (simp add: isClient_spec_def isClient_userRole_def userRole_def manager_and_viewer_def
      account_def)

text \<open>
  C8, amended: in the provider with \<open>globalRole\<close>, \<open>isClient()\<close> is true if and only if
  some membership has role \<open>client_viewer\<close> or \<open>client_approver\<close>, whatever the other
  memberships; in the provider with \<open>userRole\<close> it is true if and only if, in addition,
  the global role is not admin and no membership has role \<open>account_manager\<close>.
\<close>

theorem isClient_iff:
  "(isClient a \<longleftrightarrow>
      (\<exists>m \<in> set (memberships a). m_role m = ''client_viewer'' \<or> m_role m = ''client_approver''))
   \<and> (isClient_userRole a \<longleftrightarrow>
      (\<exists>m \<in> set (memberships a). m_role m = ''client_viewer'' \<or> m_role m = ''client_approver'')
      \<and> globalRole a \<noteq> ''admin''
      \<and> \<not> (\<exists>m \<in> set (memberships a). m_role m = ''account_manager''))"
proof
  show "isClient a \<longleftrightarrow>
      (\<exists>m \<in> set (memberships a). m_role m = ''client_viewer'' \<or> m_role m = ''client_approver'')"
    by (simp add: isClient_def list_ex_iff)
  show "isClient_userRole a \<longleftrightarrow>
      (\<exists>m \<in> set (memberships a). m_role m = ''client_viewer'' \<or> m_role m = ''client_approver'')
      \<and> globalRole a \<noteq> ''admin''
      \<and> \<not> (\<exists>m \<in> set (memberships a). m_role m = ''account_manager'')"
    unfolding isClient_userRole_def userRole_cases list_ex_iff by blast
qed

theorem isClient_iff_witness:
  "isClient manager_and_viewer \<and> \<not> isClient_userRole manager_and_viewer
   \<and> isClient approver_w1 \<and> isClient_userRole approver_w1"
  using isClient_iff [of manager_and_viewer] isClient_iff [of approver_w1]
  by (simp add: approver_w1_def manager_and_viewer_def globalRole_account) (simp add: account_def)

section \<open>Loading fails closed\<close>

text \<open>
  C10: when the profile query answers with an error or without a row, a run of \<open>load\<close>
  that is still mounted stores no profile, so the global role is \<open>user\<close>, \<open>isAdmin()\<close>
  is false, and \<open>canApprove()\<close> and \<open>hasAccessToWorkspace(w)\<close> are decided by the
  memberships alone: without an approver membership, or without a membership in \<open>w\<close>,
  they are false.
\<close>

theorem load_profile_missing_fails_closed:
  assumes "isMounted" and "error pr \<noteq> None \<or> data pr = None"
  shows "profile (load isMounted sess pr mr a) = None
    \<and> globalRole (load isMounted sess pr mr a) = ''user''
    \<and> \<not> isAdmin (load isMounted sess pr mr a)
    \<and> (canApprove (load isMounted sess pr mr a) \<longleftrightarrow>
         (\<exists>m \<in> set (memberships (load isMounted sess pr mr a)). m_role m = ''client_approver''))
    \<and> (hasAccessToWorkspace (load isMounted sess pr mr a) w \<longleftrightarrow>
         (\<exists>m \<in> set (memberships (load isMounted sess pr mr a)). m_workspace_id m = w))"
proof -
  have p: "profile (load isMounted sess pr mr a) = None"
    using assms by (auto simp: load_def Let_def split: option.splits)
  then have g: "globalRole (load isMounted sess pr mr a) = ''user''"
    by (simp add: globalRole_def)
  then have ad: "\<not> isAdmin (load isMounted sess pr mr a)"
    by (simp add: isAdmin_def)
  show ?thesis
    using p g ad by (simp add: canApprove_def hasAccessToWorkspace_def list_ex_iff)
qed

theorem load_profile_missing_fails_closed_witness:
  "isAdmin admin_auth
   \<and> \<not> isAdmin (load True (Some \<lparr>session_user = Some alice\<rparr>)
                  \<lparr>data = None, error = Some ''no rows''\<rparr> \<lparr>data = Some [], error = None\<rparr> admin_auth)
   \<and> \<not> canApprove (load True (Some \<lparr>session_user = Some alice\<rparr>)
                  \<lparr>data = None, error = Some ''no rows''\<rparr> \<lparr>data = Some [], error = None\<rparr> admin_auth)
   \<and> \<not> hasAccessToWorkspace (load True (Some \<lparr>session_user = Some alice\<rparr>)
                  \<lparr>data = None, error = Some ''no rows''\<rparr> \<lparr>data = Some [], error = None\<rparr> admin_auth)
          ''w1''"
  using load_profile_missing_fails_closed [of True "\<lparr>data = None, error = Some ''no rows''\<rparr>"
      "Some \<lparr>session_user = Some alice\<rparr>" "\<lparr>data = Some [], error = None\<rparr>" admin_auth "''w1''"]
  by (simp add: load_def Let_def isAdmin_def globalRole_def admin_auth_def)

section \<open>The scoping filter narrows\<close>

lemma subseq_filteredAccounts:
  "subseq (filteredAccounts allAccounts sw sp) allAccounts"
  by (auto simp: filteredAccounts_def Let_def intro: subseq_order.trans [OF subseq_filter_left])

text \<open>The chain of filters is one filter by the conjunction of the active selectors.\<close>

lemma posts_as_filter:
  "posts allPosts accounts sw sp sa =
    filter (\<lambda>p. account_visible (map sa_id accounts) p
               \<and> (sw \<noteq> ''all'' \<longrightarrow> p_workspace_id p = sw)
               \<and> (sp \<noteq> ''all'' \<longrightarrow> p_platform p = sp)
               \<and> (sa \<noteq> ''all'' \<longrightarrow> p_social_account_id p = Some sa)) allPosts"
  by (simp add: posts_def Let_def conj_commute conj_left_commute cong: conj_cong)

lemma account_visible_mono:
  "set ids \<subseteq> set ids' \<Longrightarrow> account_visible ids p \<Longrightarrow> account_visible ids' p"
  by (auto simp: account_visible_def split: option.splits if_splits)

lemma filter_narrower:
  assumes "\<And>x. Q x \<Longrightarrow> P x"
  shows "subseq (filter Q xs) (filter P xs)"
proof -
  have "filter Q xs = filter Q (filter P xs)"
    using assms by (auto intro: filter_cong)
  then show ?thesis
    by (metis subseq_filter_left)
qed

text \<open>
  C9: for every loaded collection and every value of the three selectors, the posts the
  calendar shows are a subsequence of the posts loaded (same relative order, no row that
  was not loaded), the accounts offered are a subsequence of the accounts loaded, and a
  selector only narrows what the selection \<open>all\<close> shows.
\<close>

theorem scoping_filter_subseq:
  "subseq (calendar_posts allPosts allAccounts sw sp sa) allPosts
   \<and> set (calendar_posts allPosts allAccounts sw sp sa) \<subseteq> set allPosts
   \<and> subseq (filteredAccounts allAccounts sw sp) allAccounts
   \<and> subseq (calendar_posts allPosts allAccounts sw sp sa)
        (calendar_posts allPosts allAccounts ''all'' ''all'' ''all'')"
proof (intro conjI)
  show "subseq (calendar_posts allPosts allAccounts sw sp sa) allPosts"
    by (simp add: calendar_posts_def posts_as_filter)
  show "set (calendar_posts allPosts allAccounts sw sp sa) \<subseteq> set allPosts"
    by (simp add: calendar_posts_def posts_as_filter)
  show "subseq (filteredAccounts allAccounts sw sp) allAccounts"
    by (rule subseq_filteredAccounts)
  have "set (map sa_id (filteredAccounts allAccounts sw sp)) \<subseteq> set (map sa_id allAccounts)"
    by (auto simp: filteredAccounts_def Let_def)
  then have "account_visible (map sa_id (filteredAccounts allAccounts sw sp)) p
      \<Longrightarrow> account_visible (map sa_id allAccounts) p" for p
    by (rule account_visible_mono)
  then show "subseq (calendar_posts allPosts allAccounts sw sp sa)
        (calendar_posts allPosts allAccounts ''all'' ''all'' ''all'')"
    unfolding calendar_posts_def posts_as_filter
    by (intro filter_narrower) (simp add: filteredAccounts_def)
qed

theorem scoping_filter_subseq_witness:
  "calendar_posts [p1, p2] [acc1, acc2] ''w1'' ''all'' ''all'' = [p1]
   \<and> calendar_posts [p1, p2] [acc1, acc2] ''all'' ''all'' ''all'' = [p1, p2]
   \<and> subseq [p1] [p1, p2]"
  using scoping_filter_subseq [of "[p1, p2]" "[acc1, acc2]" "''w1''" "''all''" "''all''"]
  by (simp add: calendar_posts_def posts_def filteredAccounts_def account_visible_def
      p1_def p2_def acc1_def acc2_def)

section \<open>The approval handlers\<close>

text \<open>Each handler, by the answers of its remote calls.\<close>

lemma handleApprove_cases:
  "handleApprove e u post d =
    (case rpc_error e of
       Some err \<Rightarrow> (Inl err, d)
     | None \<Rightarrow>
        (case audit_error e of
           Some err \<Rightarrow> (Inl err, d\<lparr>db_posts := approve_post (map_option user_id u) (now e) (p_id post) ''approved'' None (db_posts d)\<rparr>)
         | None \<Rightarrow> (Inr (), d\<lparr>db_posts := approve_post (map_option user_id u) (now e) (p_id post) ''approved'' None (db_posts d),
                       audit_logs := audit_logs d @ [approved_entry u post]\<rparr>)))"
  by (simp add: handleApprove_def updateMutation_def createAuditLog_def approved_entry_def
      split: option.splits)

lemma handleRequestChanges_cases:
  "handleRequestChanges e u post s d =
    (case rpc_error e of
       Some err \<Rightarrow> (Inl err, s, d)
     | None \<Rightarrow>
        (let d1 = d\<lparr>db_posts := approve_post (map_option user_id u) (now e) (p_id post)
                          ''changes_requested'' (reason_or_null (rejectReason s)) (db_posts d)\<rparr>;
             d2 = (if rejectReason s \<noteq> [] then d1\<lparr>comments := comments d @ [changes_comment post (rejectReason s)]\<rparr> else d1)
         in if rejectReason s \<noteq> [] \<and> comment_error e \<noteq> None then (Inl (the (comment_error e)), s, d1)
            else (case audit_error e of
                    Some err \<Rightarrow> (Inl err, s, d2)
                  | None \<Rightarrow> (Inr (), s\<lparr>showRejectDialog := False, rejectReason := []\<rparr>,
                             d2\<lparr>audit_logs := audit_logs d @ [changes_entry u post (rejectReason s)]\<rparr>))))"
  by (cases "rpc_error e"; cases "comment_error e"; cases "audit_error e")
     (simp_all add: handleRequestChanges_def updateMutation_def createAuditLog_def
        createComment_def changes_entry_def changes_comment_def Let_def)

text \<open>What the status update does to the posts.\<close>

lemma approve_post_sets:
  "p \<in> set ps \<Longrightarrow> p_id p = pid \<Longrightarrow>
    list_ex (\<lambda>q. p_id q = pid \<and> p_approval_status q = Some v) (approve_post c t pid v r ps)"
  by (induction ps) (auto simp: approve_post_def)




text \<open>The controls are offered only for a post that the page has not seen reviewed.\<close>

lemma controls_shown_iff:
  "PostApproval is_iso_date can_approve is_client post = Inr Controls \<longleftrightarrow>
     can_approve \<and> p_status post = ''sent_to_client''
     \<and> p_approval_status post \<noteq> Some ''approved''
     \<and> p_approval_status post \<noteq> Some ''changes_requested''"
  by (simp add: PostApproval_def split: option.splits)

text \<open>With unique ids, the procedure looks at the one stored row of the post.\<close>

lemma find_unique_id:
  assumes "distinct (map p_id ps)" and "q \<in> set ps" and "p_id q = pid"
  shows "find (\<lambda>p. p_id p = pid) ps = Some q"
  using assms by (induction ps) (auto simp: image_iff)


lemma approve_post_refusal_invalid_state:
  assumes "distinct (map p_id ps)" and "q \<in> set ps" and "p_id q = pid"
    and "p_status q \<noteq> ''sent_to_client''" and "canApprove_spec caller (p_workspace_id q)"
  shows "approve_post_refusal caller pid ps = Some ''InvalidState''"
  using assms(4,5) by (simp add: approve_post_refusal_def find_unique_id [OF assms(1-3)])

text \<open>
  The store refuses, and the handler writes nothing, once the post has left
  \<open>sent_to_client\<close>.
\<close>

lemma approve_published_refused:
  "handleApprove (spec_store approver_w1 ''2024-01-02'' ''p1'' db_published) (user approver_w1)
      p1 db_published = (Inl ''InvalidState'', db_published)"
  by (simp add: handleApprove_cases spec_store_def approve_post_refusal_def canApprove_spec_def
      db_published_def p1_approved_def p1_def approver_w1_def account_def globalRole_def)

subsection \<open>Approve: two calls, not one unit\<close>

text \<open>
  C2, as stated: the approval and its audit entry would be one unit. \<open>handleApprove\<close>
  awaits the status update and then inserts the audit entry in a second call; when that
  insert is refused, the post of the sample store is approved and has no audit entry.
\<close>

theorem approve_without_audit_counterexample:
  "fst (handleApprove env_audit_fails (Some alice) p1 db0) = Inl ''audit insert failed''
   \<and> approved_in ''p1'' (snd (handleApprove env_audit_fails (Some alice) p1 db0))
   \<and> audit_of ''p1'' (snd (handleApprove env_audit_fails (Some alice) p1 db0)) = []
   \<and> \<not> approved_in ''p1'' db0"
  by (simp add: handleApprove_cases env_audit_fails_def env_ok_def approved_in_def audit_of_def
      approve_post_def db0_def p1_def)

text \<open>
  C2, amended: Approve is two remote calls in order. When the status update is refused
  nothing is written, so there is no audit entry without the status change; when the
  audit insert is refused the approval stays, without an audit entry; when both succeed
  the post is approved and exactly one matching audit entry has been appended. No
  comment is written in any case.
\<close>

theorem handleApprove_two_calls:
  "(rpc_error e = Some err \<longrightarrow> handleApprove e u post d = (Inl err, d))
   \<and> (rpc_error e = None \<and> audit_error e = Some err \<longrightarrow>
        fst (handleApprove e u post d) = Inl err
        \<and> audit_logs (snd (handleApprove e u post d)) = audit_logs d
        \<and> ((\<exists>p \<in> set (db_posts d). p_id p = p_id post) \<longrightarrow>
             approved_in (p_id post) (snd (handleApprove e u post d))))
   \<and> (rpc_error e = None \<and> audit_error e = None \<longrightarrow>
        fst (handleApprove e u post d) = Inr ()
        \<and> audit_logs (snd (handleApprove e u post d)) = audit_logs d @ [approved_entry u post]
        \<and> audit_of (p_id post) (snd (handleApprove e u post d))
            = audit_of (p_id post) d @ [approved_entry u post]
        \<and> ((\<exists>p \<in> set (db_posts d). p_id p = p_id post) \<longrightarrow>
             approved_in (p_id post) (snd (handleApprove e u post d))))
   \<and> comments (snd (handleApprove e u post d)) = comments d"
  by (auto simp: handleApprove_cases approved_in_def audit_of_def approved_entry_def
      intro: approve_post_sets split: option.splits)

theorem handleApprove_two_calls_witness:
  "fst (handleApprove env_ok (Some alice) p1 db0) = Inr ()
   \<and> approved_in ''p1'' (snd (handleApprove env_ok (Some alice) p1 db0))
   \<and> audit_of ''p1'' (snd (handleApprove env_ok (Some alice) p1 db0)) = [approved_entry (Some alice) p1]
   \<and> handleApprove (env_ok\<lparr>rpc_error := Some ''denied''\<rparr>) (Some alice) p1 db0 = (Inl ''denied'', db0)
   \<and> approved_in ''p1'' (snd (handleApprove env_audit_fails (Some alice) p1 db0))
   \<and> audit_logs (snd (handleApprove env_audit_fails (Some alice) p1 db0)) = []"
  using handleApprove_two_calls [of env_ok "''x''" "Some alice" p1 db0]
    handleApprove_two_calls [of "env_ok\<lparr>rpc_error := Some ''denied''\<rparr>" "''denied''" "Some alice" p1 db0]
    handleApprove_two_calls [of env_audit_fails "''audit insert failed''" "Some alice" p1 db0]
  by (simp add: env_ok_def env_audit_fails_def audit_of_def db0_def p1_def approved_entry_def)

subsection \<open>Request changes: the comment\<close>

text \<open>
  C3, as stated: a failure of the comment append would not prevent the audit entry.
  The comment insert is awaited before the audit insert and its error is thrown, so
  after a refused comment the sample post is \<open>changes_requested\<close> and the audit log
  is still empty.
\<close>

theorem comment_failure_skips_audit_counterexample:
  "fst (handleRequestChanges env_comment_fails (Some alice) p1 (ui_reason ''fix the caption'') db0)
     = Inl ''comment insert failed''
   \<and> map p_approval_status (db_posts (snd (snd (handleRequestChanges env_comment_fails
         (Some alice) p1 (ui_reason ''fix the caption'') db0)))) = [Some ''changes_requested'']
   \<and> audit_logs (snd (snd (handleRequestChanges env_comment_fails
         (Some alice) p1 (ui_reason ''fix the caption'') db0))) = []"
  by (simp add: handleRequestChanges_cases env_comment_fails_def env_ok_def ui_reason_def
      approve_post_def db0_def p1_def Let_def)

text \<open>
  C3, amended: the comment append is attempted only after the status update has
  succeeded (a refused status update leaves the store untouched), and its failure does
  not roll the decision back; it ends the handler, so no \<open>changes_requested\<close> audit
  entry is appended after it.
\<close>

theorem comment_after_primary_no_rollback:
  "(rpc_error e \<noteq> None \<longrightarrow>
      snd (snd (handleRequestChanges e u post s d)) = d)
   \<and> (rpc_error e = None \<and> rejectReason s \<noteq> [] \<and> comment_error e = Some err \<longrightarrow>
      fst (handleRequestChanges e u post s d) = Inl err
      \<and> db_posts (snd (snd (handleRequestChanges e u post s d)))
          = approve_post (map_option user_id u) (now e) (p_id post) ''changes_requested''
              (Some (rejectReason s)) (db_posts d)
      \<and> comments (snd (snd (handleRequestChanges e u post s d))) = comments d
      \<and> audit_logs (snd (snd (handleRequestChanges e u post s d))) = audit_logs d)"
  by (cases "rpc_error e"; cases "audit_error e")
     (simp_all add: handleRequestChanges_cases Let_def reason_or_null_def)

theorem comment_after_primary_no_rollback_witness:
  "snd (snd (handleRequestChanges (env_ok\<lparr>rpc_error := Some ''denied''\<rparr>) (Some alice) p1
       (ui_reason ''fix the caption'') db0)) = db0
   \<and> map p_approval_status (db_posts (snd (snd (handleRequestChanges env_comment_fails
         (Some alice) p1 (ui_reason ''fix the caption'') db0)))) = [Some ''changes_requested'']
   \<and> audit_logs (snd (snd (handleRequestChanges env_comment_fails
         (Some alice) p1 (ui_reason ''fix the caption'') db0))) = audit_logs db0"
  using comment_after_primary_no_rollback [of "env_ok\<lparr>rpc_error := Some ''denied''\<rparr>"
      "Some alice" p1 "ui_reason ''fix the caption''" db0 "''x''"]
    comment_after_primary_no_rollback [of env_comment_fails
      "Some alice" p1 "ui_reason ''fix the caption''" db0 "''comment insert failed''"]
  by (simp add: env_ok_def env_comment_fails_def ui_reason_def approve_post_def db0_def p1_def)

text \<open>
  C4: a request for changes with a non-empty reason \<open>r\<close>, whose status update and
  comment insert succeed, appends exactly one comment, with content
  \<open>"Changes requested: "\<close> followed by \<open>r\<close> and \<open>is_internal = false\<close>; with an
  empty reason no comment is appended, and a run without refusals performs the status
  update and appends the audit entry only.
\<close>

theorem requestChanges_comment:
  "(rejectReason s = [] \<longrightarrow>
      comments (snd (snd (handleRequestChanges e u post s d))) = comments d)
   \<and> (rejectReason s \<noteq> [] \<and> rpc_error e = None \<and> comment_error e = None \<longrightarrow>
      comments (snd (snd (handleRequestChanges e u post s d)))
        = comments d @ [\<lparr>c_post_id = p_id post, c_workspace_id = p_workspace_id post,
                         c_content = ''Changes requested: '' @ rejectReason s,
                         c_is_internal = False\<rparr>])
   \<and> (rpc_error e = None \<and> (rejectReason s \<noteq> [] \<longrightarrow> comment_error e = None)
        \<and> audit_error e = None \<longrightarrow>
      fst (handleRequestChanges e u post s d) = Inr ()
      \<and> db_posts (snd (snd (handleRequestChanges e u post s d)))
          = approve_post (map_option user_id u) (now e) (p_id post) ''changes_requested''
              (reason_or_null (rejectReason s)) (db_posts d)
      \<and> audit_logs (snd (snd (handleRequestChanges e u post s d)))
          = audit_logs d @ [changes_entry u post (rejectReason s)])"
  by (cases "rpc_error e"; cases "comment_error e"; cases "audit_error e")
     (simp_all add: handleRequestChanges_cases Let_def changes_comment_def)

theorem requestChanges_comment_witness:
  "map c_content (comments (snd (snd (handleRequestChanges env_ok (Some alice) p1
       (ui_reason ''fix the caption'') db0)))) = [''Changes requested: fix the caption'']
   \<and> map c_is_internal (comments (snd (snd (handleRequestChanges env_ok (Some alice) p1
       (ui_reason ''fix the caption'') db0)))) = [False]
   \<and> comments (snd (snd (handleRequestChanges env_ok (Some alice) p1 (ui_reason []) db0))) = []
   \<and> map al_action (audit_logs (snd (snd (handleRequestChanges env_ok (Some alice) p1
       (ui_reason []) db0)))) = [''changes_requested'']
   \<and> map p_approval_status (db_posts (snd (snd (handleRequestChanges env_ok (Some alice) p1
       (ui_reason []) db0)))) = [Some ''changes_requested'']"
  using requestChanges_comment [of "ui_reason ''fix the caption''" env_ok "Some alice" p1 db0]
    requestChanges_comment [of "ui_reason []" env_ok "Some alice" p1 db0]
  by (simp add: env_ok_def ui_reason_def approve_post_def db0_def p1_def changes_entry_def)

subsection \<open>Rows stay in the post's workspace\<close>

text \<open>
  C5: whatever the store answers, the audit entries and comments that Approve and
  RequestChanges append for a post carry the workspace id (and the id) of that post; the
  rows already there are kept.
\<close>

theorem no_cross_workspace_rows:
  "(\<exists>new. audit_logs (snd (handleApprove e u post d)) = audit_logs d @ new
       \<and> (\<forall>r \<in> set new. al_workspace_id r = p_workspace_id post \<and> al_entity_id r = p_id post))
   \<and> comments (snd (handleApprove e u post d)) = comments d
   \<and> (\<exists>new. audit_logs (snd (snd (handleRequestChanges e u post s d))) = audit_logs d @ new
       \<and> (\<forall>r \<in> set new. al_workspace_id r = p_workspace_id post \<and> al_entity_id r = p_id post))
   \<and> (\<exists>new. comments (snd (snd (handleRequestChanges e u post s d))) = comments d @ new
       \<and> (\<forall>c \<in> set new. c_workspace_id c = p_workspace_id post \<and> c_post_id c = p_id post))"
proof (intro conjI)
  show "\<exists>new. audit_logs (snd (handleApprove e u post d)) = audit_logs d @ new
       \<and> (\<forall>r \<in> set new. al_workspace_id r = p_workspace_id post \<and> al_entity_id r = p_id post)"
    by (cases "rpc_error e"; cases "audit_error e")
       (simp_all add: handleApprove_cases approved_entry_def)
  show "comments (snd (handleApprove e u post d)) = comments d"
    by (cases "rpc_error e"; cases "audit_error e") (simp_all add: handleApprove_cases)
  show "\<exists>new. audit_logs (snd (snd (handleRequestChanges e u post s d))) = audit_logs d @ new
       \<and> (\<forall>r \<in> set new. al_workspace_id r = p_workspace_id post \<and> al_entity_id r = p_id post)"
    by (cases "rpc_error e"; cases "comment_error e"; cases "audit_error e")
       (simp_all add: handleRequestChanges_cases Let_def changes_entry_def)
  show "\<exists>new. comments (snd (snd (handleRequestChanges e u post s d))) = comments d @ new
       \<and> (\<forall>c \<in> set new. c_workspace_id c = p_workspace_id post \<and> c_post_id c = p_id post)"
    by (cases "rpc_error e"; cases "comment_error e"; cases "audit_error e")
       (simp_all add: handleRequestChanges_cases Let_def changes_comment_def)
qed

theorem no_cross_workspace_rows_witness:
  "map al_workspace_id (audit_logs (snd (handleApprove env_ok (Some alice) p1 db0))) = [''w1'']
   \<and> map al_workspace_id (audit_logs (snd (snd (handleRequestChanges env_ok (Some alice) p1
        (ui_reason ''fix the caption'') db0)))) = [''w1'']
   \<and> map c_workspace_id (comments (snd (snd (handleRequestChanges env_ok (Some alice) p1
        (ui_reason ''fix the caption'') db0)))) = [''w1'']"
  using no_cross_workspace_rows [of env_ok "Some alice" p1 db0 "ui_reason ''fix the caption''"]
  by (simp add: handleApprove_cases handleRequestChanges_cases Let_def env_ok_def ui_reason_def
      db0_def p1_def approved_entry_def changes_entry_def changes_comment_def)

subsection \<open>Approving again\<close>



end
